theory Spec2Isabelle
  imports Complex_Main
begin

section \<open>Toolkit values used by the canvas\<close>

text \<open>
  The editor is written against PyQt5. The toolkit classes the canvas computes with are
  modelled by value: a \<open>QPoint\<close> is a pair of integers, a \<open>QRect\<close> is its top-left
  corner with a width and a height, a \<open>QImage\<close> is its size with a pixel function
  (implicitly shared in Qt, hence a value). A Python \<open>float\<close> is modelled by an exact
  real number, and \<open>int(x)\<close> on it truncates towards zero.
\<close>

type_synonym qpoint = "int \<times> int"

definition px :: "qpoint \<Rightarrow> int" where
  "px p = fst p"

definition py :: "qpoint \<Rightarrow> int" where
  "py p = snd p"

definition point_add :: "qpoint \<Rightarrow> qpoint \<Rightarrow> qpoint" where
  "point_add p q = (fst p + fst q, snd p + snd q)"

definition point_sub :: "qpoint \<Rightarrow> qpoint \<Rightarrow> qpoint" where
  "point_sub p q = (fst p - fst q, snd p - snd q)"

text \<open>
  PyQt5 gives \<open>QPoint\<close> a \<open>__bool__\<close> that is \<open>not isNull()\<close>: the point (0, 0) is
  false in a Python condition, every other point is true. An attribute that holds
  \<open>None\<close> or a point is an option, and its truth value is \<open>truthy\<close>.
\<close>

definition point_bool :: "qpoint \<Rightarrow> bool" where
  "point_bool p = (p \<noteq> (0, 0))"

fun truthy :: "qpoint option \<Rightarrow> bool" where
  "truthy None = False"
| "truthy (Some p) = point_bool p"

record qrect =
  rect_x :: int
  rect_y :: int
  rect_w :: int
  rect_h :: int

text \<open>\<open>QRect()\<close>, the null rectangle.\<close>

definition null_rect :: qrect where
  "null_rect = \<lparr>rect_x = 0, rect_y = 0, rect_w = 0, rect_h = 0\<rparr>"

text \<open>\<open>QRect.isValid\<close>: left \<le> right and top \<le> bottom, with right = left + width - 1.\<close>

definition isValid :: "qrect \<Rightarrow> bool" where
  "isValid r = (0 < rect_w r \<and> 0 < rect_h r)"

text \<open>\<open>QRect.contains(QPoint)\<close> on a rectangle of non-negative width and height.\<close>

definition contains :: "qrect \<Rightarrow> qpoint \<Rightarrow> bool" where
  "contains r p =
     (rect_x r \<le> fst p \<and> fst p \<le> rect_x r + rect_w r - 1 \<and>
      rect_y r \<le> snd p \<and> snd p \<le> rect_y r + rect_h r - 1)"

datatype rgba = Rgba (red: nat) (green: nat) (blue: nat) (alpha: nat)

definition white :: rgba where
  "white = Rgba 255 255 255 255"

definition black :: rgba where
  "black = Rgba 0 0 0 255"

definition transparent :: rgba where
  "transparent = Rgba 0 0 0 0"

record qimage =
  width :: int
  height :: int
  pixel :: "int \<Rightarrow> int \<Rightarrow> rgba"

definition null_image :: qimage where
  "null_image = \<lparr>width = 0, height = 0, pixel = (\<lambda>x y. transparent)\<rparr>"

text \<open>\<open>QImage(w, h, format)\<close> with given contents; a non-positive size gives the null image.\<close>

definition new_image :: "int \<Rightarrow> int \<Rightarrow> (int \<Rightarrow> int \<Rightarrow> rgba) \<Rightarrow> qimage" where
  "new_image w h f =
     (if w \<le> 0 \<or> h \<le> 0 then null_image else \<lparr>width = w, height = h, pixel = f\<rparr>)"

definition image_isNull :: "qimage \<Rightarrow> bool" where
  "image_isNull i = (width i \<le> 0 \<or> height i \<le> 0)"

definition in_image :: "qimage \<Rightarrow> int \<Rightarrow> int \<Rightarrow> bool" where
  "in_image i x y = (0 \<le> x \<and> x < width i \<and> 0 \<le> y \<and> y < height i)"

text \<open>Python's \<open>int(x)\<close> on a float: truncation towards zero.\<close>

definition py_int :: "real \<Rightarrow> int" where
  "py_int x = (if 0 \<le> x then \<lfloor>x\<rfloor> else - \<lfloor>- x\<rfloor>)"

subsection \<open>Image operations of the toolkit\<close>

text \<open>\<open>QImage.fill(color)\<close>.\<close>

definition fill :: "rgba \<Rightarrow> qimage \<Rightarrow> qimage" where
  "fill c i = i\<lparr>pixel := (\<lambda>x y. c)\<rparr>"

text \<open>
  \<open>QImage.copy(x, y, w, h)\<close>: a new image of the size of the rectangle; the pixels of
  the rectangle that lie outside the source are zero. A null source or an empty
  rectangle gives the null image.
\<close>

definition copy :: "qimage \<Rightarrow> qrect \<Rightarrow> qimage" where
  "copy i r =
     (if image_isNull i then null_image
      else new_image (rect_w r) (rect_h r)
             (\<lambda>x y. if in_image i (rect_x r + x) (rect_y r + y)
                    then pixel i (rect_x r + x) (rect_y r + y) else Rgba 0 0 0 0))"

datatype composition_mode = SourceOver | Source | DestinationIn

text \<open>
  Composition of a source pixel \<open>s\<close> onto a destination pixel \<open>d\<close>. Only the cases
  of a fully opaque and of a fully transparent source pixel are exact; in between the
  result is the nominal blend on integer channels.
\<close>

fun compose :: "composition_mode \<Rightarrow> rgba \<Rightarrow> rgba \<Rightarrow> rgba" where
  "compose Source s d = s"
| "compose SourceOver s d =
     (if alpha s = 255 then s
      else if alpha s = 0 then d
      else let a = alpha s + alpha d * (255 - alpha s) div 255 in
        Rgba ((red s * alpha s * 255 + red d * alpha d * (255 - alpha s)) div (255 * a))
             ((green s * alpha s * 255 + green d * alpha d * (255 - alpha s)) div (255 * a))
             ((blue s * alpha s * 255 + blue d * alpha d * (255 - alpha s)) div (255 * a))
             a)"
| "compose DestinationIn s d =
     (if alpha s = 255 then d
      else if alpha s = 0 then transparent
      else Rgba (red d) (green d) (blue d) (alpha d * alpha s div 255))"

text \<open>
  \<open>QPainter(dst).drawImage(p, src)\<close> under a composition mode: the pixels of \<open>dst\<close>
  covered by \<open>src\<close> placed at \<open>p\<close> are composed, all others are kept.
\<close>

definition drawImage_mode :: "composition_mode \<Rightarrow> qimage \<Rightarrow> qpoint \<Rightarrow> qimage \<Rightarrow> qimage" where
  "drawImage_mode m dst p src =
     dst\<lparr>pixel := (\<lambda>x y.
            if in_image dst x y \<and> in_image src (x - fst p) (y - snd p)
            then compose m (pixel src (x - fst p) (y - snd p)) (pixel dst x y)
            else pixel dst x y)\<rparr>"

definition drawImage :: "qimage \<Rightarrow> qpoint \<Rightarrow> qimage \<Rightarrow> qimage" where
  "drawImage dst p src = drawImage_mode SourceOver dst p src"

text \<open>\<open>QPainter.fillRect(rect, color)\<close> with \<open>CompositionMode_Source\<close>.\<close>

definition fillRect :: "qimage \<Rightarrow> qrect \<Rightarrow> rgba \<Rightarrow> qimage" where
  "fillRect dst r c =
     dst\<lparr>pixel := (\<lambda>x y. if in_image dst x y \<and> contains r (x, y) then c else pixel dst x y)\<rparr>"

text \<open>
  \<open>QPainter.fillPath\<close> of the polygon of a path, without antialiasing: a pixel is
  filled when its centre lies inside the polygon closed from its last point to its
  first, by the odd-even rule of \<open>QPainterPath\<close>. The test runs on doubled
  coordinates, where the centre of pixel (x, y) is (2x + 1, 2y + 1): an edge counts when
  it crosses the horizontal line through the centre to the right of the centre.
\<close>

fun edge_crosses :: "int \<Rightarrow> int \<Rightarrow> qpoint \<times> qpoint \<Rightarrow> bool" where
  "edge_crosses cx cy ((ax, ay), (bx, by)) =
     (((2 * ay < cy) \<noteq> (2 * by < cy)) \<and>
      (if ay < by then (cx - 2 * ax) * (by - ay) < (cy - 2 * ay) * (bx - ax)
       else (cx - 2 * ax) * (by - ay) > (cy - 2 * ay) * (bx - ax)))"

definition polygon_edges :: "qpoint list \<Rightarrow> (qpoint \<times> qpoint) list" where
  "polygon_edges path = zip path (rotate1 path)"

definition covers :: "qpoint list \<Rightarrow> int \<Rightarrow> int \<Rightarrow> bool" where
  "covers path x y =
     odd (length (filter (edge_crosses (2 * x + 1) (2 * y + 1)) (polygon_edges path)))"

text \<open>
  The mask of a path: an image of the given size, transparent, with the polygon of the
  path filled white.
\<close>

definition polygon_mask :: "int \<Rightarrow> int \<Rightarrow> qpoint list \<Rightarrow> qimage" where
  "polygon_mask w h path =
     new_image w h (\<lambda>x y. if covers path x y then white else transparent)"

text \<open>\<open>QImage.transformed(QTransform().rotate(90))\<close> and \<open>rotate(-90)\<close>.\<close>

definition rotated_90 :: "qimage \<Rightarrow> qimage" where
  "rotated_90 i =
     (if image_isNull i then null_image
      else \<lparr>width = height i, height = width i,
            pixel = (\<lambda>x y. pixel i y (height i - 1 - x))\<rparr>)"

definition rotated_90_cc :: "qimage \<Rightarrow> qimage" where
  "rotated_90_cc i =
     (if image_isNull i then null_image
      else \<lparr>width = height i, height = width i,
            pixel = (\<lambda>x y. pixel i (width i - 1 - y) x)\<rparr>)"

text \<open>\<open>QImage.mirrored(horizontal, vertical)\<close>.\<close>

definition mirrored :: "bool \<Rightarrow> bool \<Rightarrow> qimage \<Rightarrow> qimage" where
  "mirrored horizontal vertical i =
     (if image_isNull i then null_image
      else i\<lparr>pixel := (\<lambda>x y. pixel i (if horizontal then width i - 1 - x else x)
                                      (if vertical then height i - 1 - y else y))\<rparr>)"

text \<open>
  Two routines of the toolkit are taken as parameters, since their pixels come out of
  the toolkit's filters: \<open>QImage.scaled(w, h, KeepAspectRatio, SmoothTransformation)\<close>
  and the line of a round pen, \<open>QPainter.drawLine\<close>, given the image, the pen colour,
  the pen width and the two end points.
\<close>

record toolkit =
  scaled :: "qimage \<Rightarrow> int \<Rightarrow> int \<Rightarrow> qimage"
  drawLine :: "qimage \<Rightarrow> rgba \<Rightarrow> int \<Rightarrow> qpoint \<Rightarrow> qpoint \<Rightarrow> qimage"

text \<open>
  A reference toolkit: \<open>scaled\<close> computes the size as \<open>QSize.scaled\<close> does under
  \<open>KeepAspectRatio\<close> and samples the nearest source pixel; \<open>drawLine\<close> paints the
  pixels within half the pen width of the segment.
\<close>

definition keep_aspect_size :: "int \<Rightarrow> int \<Rightarrow> int \<Rightarrow> int \<Rightarrow> int \<times> int" where
  "keep_aspect_size wd ht w h =
     (let rw = h * wd div ht in
      if rw \<le> w then (rw, h) else (w, w * ht div wd))"

definition nearest_scaled :: "qimage \<Rightarrow> int \<Rightarrow> int \<Rightarrow> qimage" where
  "nearest_scaled i w h =
     (if image_isNull i \<or> w \<le> 0 \<or> h \<le> 0 then null_image
      else let (nw, nh) = keep_aspect_size (width i) (height i) w h in
        if (nw, nh) = (width i, height i) then i
        else new_image nw nh (\<lambda>x y. pixel i (x * width i div nw) (y * height i div nh)))"

definition segment_dist2 :: "qpoint \<Rightarrow> qpoint \<Rightarrow> int \<Rightarrow> int \<Rightarrow> real" where
  "segment_dist2 a b x y =
     (let dx = real_of_int (fst b - fst a); dy = real_of_int (snd b - snd a);
          ux = real_of_int (x - fst a); uy = real_of_int (y - snd a);
          l2 = dx * dx + dy * dy;
          t = (if l2 = 0 then 0 else max 0 (min 1 ((ux * dx + uy * dy) / l2)))
      in (ux - t * dx) * (ux - t * dx) + (uy - t * dy) * (uy - t * dy))"

definition capsule_line :: "qimage \<Rightarrow> rgba \<Rightarrow> int \<Rightarrow> qpoint \<Rightarrow> qpoint \<Rightarrow> qimage" where
  "capsule_line i c pen_width a b =
     i\<lparr>pixel := (\<lambda>x y. if in_image i x y \<and>
                            4 * segment_dist2 a b x y \<le> real_of_int (pen_width * pen_width)
                         then c else pixel i x y)\<rparr>"

definition reference_toolkit :: toolkit where
  "reference_toolkit = \<lparr>scaled = nearest_scaled, drawLine = capsule_line\<rparr>"

section \<open>The canvas state\<close>

text \<open>
  The attributes of \<open>Canvas\<close>, with the size of the widget, the image on the
  application clipboard and the log of the status messages emitted so far.
\<close>

datatype error = ZeroDivisionError | TypeError

datatype mouse_button = NoButton | LeftButton | RightButton | MiddleButton

record mouse_event =
  pos :: qpoint
  button :: mouse_button

datatype gesture_state =
  NoGesture | GestureStarted | GestureUpdated | GestureFinished | GestureCanceled

record pinch_gesture =
  state :: gesture_state
  scaleFactor :: real

record canvas =
  widget_width :: int
  widget_height :: int
  canvas_image :: qimage
  original_image :: qimage
  current_scale :: real
  offset_x :: int
  offset_y :: int
  tool :: "string option"
  selection_start :: "qpoint option"
  selection_path :: "qpoint list"
  drawing_selection :: bool
  selected_area :: "qimage option"
  is_moving_selection :: bool
  selection_offset :: qpoint
  drawing :: bool
  last_point :: qpoint
  brush_color :: rgba
  brush_size :: int
  eraser_size :: int
  clipboard :: qimage
  status_message :: "string list"

text \<open>\<open>Canvas.__init__\<close>, on an application whose clipboard holds \<open>clip\<close>.\<close>

definition init_canvas :: "qimage \<Rightarrow> canvas" where
  "init_canvas clip =
     \<lparr>widget_width = 800, widget_height = 600,
      canvas_image = new_image 800 600 (\<lambda>x y. white),
      original_image = new_image 800 600 (\<lambda>x y. white),
      current_scale = 1, offset_x = 0, offset_y = 0,
      tool = None, selection_start = None, selection_path = [],
      drawing_selection = False, selected_area = None,
      is_moving_selection = False, selection_offset = (0, 0),
      drawing = False, last_point = (0, 0),
      brush_color = black, brush_size = 3, eraser_size = 10,
      clipboard = clip, status_message = []\<rparr>"

text \<open>
  \<open>update()\<close> only schedules a repaint and changes no attribute. A status message is
  appended to the log.
\<close>

definition emit :: "string \<Rightarrow> canvas \<Rightarrow> canvas" where
  "emit m s = s\<lparr>status_message := status_message s @ [m]\<rparr>"

text \<open>
  The display image: the original scaled to \<open>int(width * scale)\<close> by
  \<open>int(height * scale)\<close>, the expression every operation recomputes it with.
\<close>

definition display :: "toolkit \<Rightarrow> canvas \<Rightarrow> qimage" where
  "display tk s =
     scaled tk (original_image s)
       (py_int (real_of_int (width (original_image s)) * current_scale s))
       (py_int (real_of_int (height (original_image s)) * current_scale s))"

definition update_canvas_scale :: "toolkit \<Rightarrow> canvas \<Rightarrow> canvas" where
  "update_canvas_scale tk s = s\<lparr>canvas_image := display tk s\<rparr>"

definition set_tool :: "string option \<Rightarrow> canvas \<Rightarrow> canvas" where
  "set_tool t s =
     s\<lparr>tool := t, selection_start := None, selection_path := [],
       drawing_selection := False, selected_area := None\<rparr>"

definition free_form :: "string option \<Rightarrow> bool" where
  "free_form t = (t = Some ''lasso'' \<or> t = Some ''polygon'')"

definition get_selection_rect :: "canvas \<Rightarrow> qrect" where
  "get_selection_rect s =
     (case selection_start s of
        None \<Rightarrow> null_rect
      | Some start \<Rightarrow>
          if \<not> point_bool start \<or> selection_path s = [] then null_rect
          else let e = last (selection_path s);
                   x1 = min (fst start) (fst e); y1 = min (snd start) (snd e);
                   x2 = max (fst start) (fst e); y2 = max (snd start) (snd e)
               in \<lparr>rect_x = x1, rect_y = y1, rect_w = x2 - x1, rect_h = y2 - y1\<rparr>)"

text \<open>
  The area of a lasso or polygon selection: a transparent image of the size of the
  original, the original drawn onto it with \<open>CompositionMode_Source\<close>, then the mask
  with \<open>CompositionMode_DestinationIn\<close>.
\<close>

definition masked_area :: "qimage \<Rightarrow> qpoint list \<Rightarrow> qimage" where
  "masked_area orig path =
     (let mask = polygon_mask (width orig) (height orig) path;
          area = new_image (width orig) (height orig) (\<lambda>x y. transparent)
      in drawImage_mode DestinationIn (drawImage_mode Source area (0, 0) orig) (0, 0) mask)"

definition extract_selection :: "canvas \<Rightarrow> canvas" where
  "extract_selection s =
     (if selection_path s = [] then emit ''No selection to extract.'' s
      else emit ''Selection extracted.''
        (if free_form (tool s) then
           s\<lparr>selected_area := Some (masked_area (original_image s) (selection_path s))\<rparr>
         else if tool s = Some ''rect'' \<and> truthy (selection_start s) then
           (let rect = get_selection_rect s in
            if isValid rect then s\<lparr>selected_area := Some (copy (original_image s) rect)\<rparr>
            else s)
         else s))"

definition copy_selection :: "canvas \<Rightarrow> canvas" where
  "copy_selection s =
     (if selection_path s = [] then emit ''No selection to copy.'' s
      else let s1 = extract_selection s in
        case selected_area s1 of
          None \<Rightarrow> s1
        | Some area \<Rightarrow> emit ''Selection copied to clipboard.'' (s1\<lparr>clipboard := area\<rparr>))"

definition paste_selection :: "toolkit \<Rightarrow> qpoint option \<Rightarrow> canvas \<Rightarrow> canvas" where
  "paste_selection tk position s =
     (let clipboard_image = clipboard s in
      if image_isNull clipboard_image then emit ''Clipboard is empty.'' s
      else
        let paste_position = (case position of
                                None \<Rightarrow> (0, 0)
                              | Some p \<Rightarrow> if point_bool p then p else (0, 0));
            s1 = s\<lparr>original_image := drawImage (original_image s) paste_position clipboard_image\<rparr>;
            s2 = s1\<lparr>canvas_image := display tk s1\<rparr>;
            s3 = s2\<lparr>selection_start := Some paste_position,
                    selection_path :=
                      [paste_position,
                       point_add paste_position (width clipboard_image, height clipboard_image)],
                    selected_area := Some clipboard_image\<rparr>
        in emit ''Image pasted with selection.'' s3)"

definition cut_selection :: "toolkit \<Rightarrow> canvas \<Rightarrow> canvas" where
  "cut_selection tk s =
     (if selection_path s = [] then emit ''No selection to cut.'' s
      else
        let s1 = copy_selection s;
            painted =
              (if tool s1 = Some ''rect'' \<and> length (selection_path s1) = 2 then
                 fillRect (original_image s1) (get_selection_rect s1) white
               else if free_form (tool s1) then
                 drawImage (original_image s1) (0, 0)
                   (polygon_mask (width (original_image s1)) (height (original_image s1))
                      (selection_path s1))
               else original_image s1);
            s2 = s1\<lparr>original_image := painted\<rparr>;
            s3 = s2\<lparr>canvas_image := display tk s2\<rparr>
        in emit ''Selection cut.'' (s3\<lparr>selection_path := [], selected_area := None\<rparr>))"

definition paintEvent :: "canvas \<Rightarrow> canvas" where
  "paintEvent s =
     s\<lparr>offset_x := max ((widget_width s - width (canvas_image s)) div 2) 0,
       offset_y := max ((widget_height s - height (canvas_image s)) div 2) 0\<rparr>"

definition clear_canvas :: "canvas \<Rightarrow> canvas" where
  "clear_canvas s =
     s\<lparr>canvas_image := fill white (canvas_image s),
       original_image := fill white (canvas_image s),
       selected_area := None, selection_start := None, selection_path := [],
       drawing_selection := False, is_moving_selection := False\<rparr>"

text \<open>
  \<open>map_to_scaled_image\<close>: the division is Python's float division, which raises on a
  zero scale.
\<close>

definition map_to_scaled_image :: "canvas \<Rightarrow> qpoint \<Rightarrow> error + qpoint" where
  "map_to_scaled_image s p =
     (if current_scale s = 0 then Inl ZeroDivisionError
      else Inr (py_int (real_of_int (fst p - offset_x s) / current_scale s),
                py_int (real_of_int (snd p - offset_y s) / current_scale s)))"

definition map_from_scaled_image :: "canvas \<Rightarrow> qpoint \<Rightarrow> qpoint" where
  "map_from_scaled_image s p =
     (py_int (real_of_int (fst p) * current_scale s + real_of_int (offset_x s)),
      py_int (real_of_int (snd p) * current_scale s + real_of_int (offset_y s)))"

fun map_points :: "canvas \<Rightarrow> qpoint list \<Rightarrow> error + qpoint list" where
  "map_points s [] = Inr []"
| "map_points s (p # ps) =
     (case map_to_scaled_image s p of
        Inl e \<Rightarrow> Inl e
      | Inr q \<Rightarrow> (case map_points s ps of Inl e \<Rightarrow> Inl e | Inr qs \<Rightarrow> Inr (q # qs)))"

definition finalize_selection :: "canvas \<Rightarrow> error + canvas" where
  "finalize_selection s =
     (if selection_path s \<noteq> [] then
        (case map_points s (selection_path s) of
           Inl e \<Rightarrow> Inl e
         | Inr ps \<Rightarrow> Inr (extract_selection (s\<lparr>selection_path := ps\<rparr>)))
      else Inr s)"

text \<open>
  \<open>mousePressEvent\<close>, in the three steps of its body: the choice between moving the
  selection and clearing it, the dispatch on the tool, and the guard on the mapped
  point around both.
\<close>

definition press_selection :: "qpoint \<Rightarrow> canvas \<Rightarrow> error + canvas" where
  "press_selection p s =
     (if selected_area s \<noteq> None \<and> contains (get_selection_rect s) p then
        (case selection_start s of
           None \<Rightarrow> Inl TypeError
         | Some start \<Rightarrow>
             Inr (s\<lparr>is_moving_selection := True, selection_offset := point_sub p start\<rparr>))
      else
        Inr (s\<lparr>is_moving_selection := False, selection_start := None,
               selection_path := [], selected_area := None\<rparr>))"

definition press_tool :: "mouse_event \<Rightarrow> qpoint \<Rightarrow> canvas \<Rightarrow> canvas" where
  "press_tool event p s =
     (if tool s = Some ''rect'' then s\<lparr>selection_start := Some p, selection_path := [p]\<rparr>
      else if free_form (tool s) then
        (if \<not> drawing_selection s then s\<lparr>selection_path := [p], drawing_selection := True\<rparr>
         else s\<lparr>drawing_selection := True\<rparr>)
      else if tool s = None \<and> button event = LeftButton then
        s\<lparr>drawing := True, last_point := p\<rparr>
      else if tool s = Some ''erase'' then s\<lparr>drawing := True, last_point := p\<rparr>
      else s)"

definition mousePressEvent :: "mouse_event \<Rightarrow> canvas \<Rightarrow> error + canvas" where
  "mousePressEvent event s =
     (case map_to_scaled_image s (pos event) of
        Inl e \<Rightarrow> Inl e
      | Inr p \<Rightarrow>
          if fst p \<noteq> - 1 \<and> snd p \<noteq> - 1 then
            (case press_selection p s of
               Inl e \<Rightarrow> Inl e
             | Inr s1 \<Rightarrow> Inr (press_tool event p s1))
          else Inr s)"

definition stroke :: "toolkit \<Rightarrow> rgba \<Rightarrow> int \<Rightarrow> qpoint \<Rightarrow> canvas \<Rightarrow> canvas" where
  "stroke tk c pen_width p s =
     (let s1 = s\<lparr>original_image := drawLine tk (original_image s) c pen_width (last_point s) p,
                 last_point := p\<rparr>
      in s1\<lparr>canvas_image := display tk s1\<rparr>)"

definition mouseMoveEvent :: "toolkit \<Rightarrow> mouse_event \<Rightarrow> canvas \<Rightarrow> error + canvas" where
  "mouseMoveEvent tk event s =
     (case map_to_scaled_image s (pos event) of
        Inl e \<Rightarrow> Inl e
      | Inr p \<Rightarrow>
          if is_moving_selection s \<and> selected_area s \<noteq> None then
            Inr (s\<lparr>selection_start := Some (point_sub p (selection_offset s))\<rparr>)
          else if tool s = Some ''rect'' \<and> truthy (selection_start s) then
            (case selection_start s of
               None \<Rightarrow> Inr s
             | Some start \<Rightarrow> Inr (s\<lparr>selection_path := [start, p]\<rparr>))
          else if free_form (tool s) \<and> drawing_selection s then
            Inr (s\<lparr>selection_path := selection_path s @ [p]\<rparr>)
          else if tool s = None \<and> drawing s then
            Inr (stroke tk (brush_color s) (brush_size s) p s)
          else if tool s = Some ''erase'' \<and> drawing s then
            Inr (stroke tk white (eraser_size s) p s)
          else Inr s)"

definition mouseReleaseEvent :: "canvas \<Rightarrow> error + canvas" where
  "mouseReleaseEvent s =
     (if is_moving_selection s then Inr (s\<lparr>is_moving_selection := False\<rparr>)
      else if tool s = Some ''rect'' \<or> free_form (tool s) then
        finalize_selection (s\<lparr>drawing_selection := False\<rparr>)
      else if tool s = Some ''erase'' \<or> tool s = None then Inr (s\<lparr>drawing := False\<rparr>)
      else Inr s)"

definition handle_pinch :: "toolkit \<Rightarrow> pinch_gesture \<Rightarrow> canvas \<Rightarrow> canvas" where
  "handle_pinch tk gesture s =
     (if image_isNull (original_image s) then s
      else if state gesture = GestureStarted \<or> state gesture = GestureUpdated then
        (let new_scale = max (1 / 10) (min 5 (current_scale s * scaleFactor gesture)) in
         if new_scale \<noteq> current_scale s then
           (let s1 = s\<lparr>current_scale := new_scale\<rparr> in s1\<lparr>canvas_image := display tk s1\<rparr>)
         else s)
      else s)"

text \<open>
  The states of the selection engine, read off the attributes: idle without path, area
  and lasso flag; selecting with a path (or the lasso flag) and no area yet; selected with
  a path and an extracted area; moving when the moving flag is set on an extracted area.
\<close>

definition is_idle :: "canvas \<Rightarrow> bool" where
  "is_idle s = (selection_path s = [] \<and> selected_area s = None \<and> \<not> drawing_selection s)"

definition is_selecting :: "canvas \<Rightarrow> bool" where
  "is_selecting s = (selected_area s = None \<and> (selection_path s \<noteq> [] \<or> drawing_selection s))"


definition is_moving :: "canvas \<Rightarrow> bool" where
  "is_moving s = (is_moving_selection s \<and> selected_area s \<noteq> None)"

section \<open>The editor window\<close>

text \<open>
  \<open>PhotoEditor\<close> holds the canvas; its status bar and its warning boxes are logs of
  the texts shown.
\<close>

record photo_editor =
  canvas_of :: canvas
  statusBar :: "string list"
  warnings :: "string list"

definition showMessage :: "string \<Rightarrow> photo_editor \<Rightarrow> photo_editor" where
  "showMessage m e = e\<lparr>statusBar := statusBar e @ [m]\<rparr>"

definition warning :: "string \<Rightarrow> photo_editor \<Rightarrow> photo_editor" where
  "warning m e = e\<lparr>warnings := warnings e @ [m]\<rparr>"

definition set_canvas_image :: "qimage \<Rightarrow> photo_editor \<Rightarrow> photo_editor" where
  "set_canvas_image i e = e\<lparr>canvas_of := (canvas_of e)\<lparr>canvas_image := i\<rparr>\<rparr>"

definition crop_image :: "photo_editor \<Rightarrow> photo_editor" where
  "crop_image e =
     (let image = canvas_image (canvas_of e) in
      if image_isNull image then warning ''No image to crop.'' e
      else
        let crop_size = min (width image) (height image);
            x = (width image - crop_size) div 2;
            y = (height image - crop_size) div 2;
            cropped = copy image \<lparr>rect_x = x, rect_y = y, rect_w = crop_size, rect_h = crop_size\<rparr>
        in showMessage ''Image cropped to center.'' (set_canvas_image cropped e))"

text \<open>
  \<open>resize_image\<close> asks for the new width and height in two dialogs; each answer is the
  number with the flag that the dialog was accepted. The text of the last status message
  carries the two numbers and is kept as the fixed part of the text.
\<close>

definition resize_image :: "int \<times> bool \<Rightarrow> int \<times> bool \<Rightarrow> photo_editor \<Rightarrow> photo_editor" where
  "resize_image answer1 answer2 e =
     (let image = canvas_image (canvas_of e) in
      if image_isNull image then warning ''No image to resize.'' e
      else if \<not> snd answer1 then e
      else if \<not> snd answer2 then e
      else
        let new_width = fst answer1; new_height = fst answer2;
            x_offset = (new_width - width image) div 2;
            y_offset = (new_height - height image) div 2;
            resized = drawImage (new_image new_width new_height (\<lambda>x y. white))
                        (x_offset, y_offset) image;
            c = (canvas_of e)\<lparr>widget_width := new_width, widget_height := new_height,
                               canvas_image := resized\<rparr>
        in showMessage ''Canvas resized.'' (e\<lparr>canvas_of := c\<rparr>))"

definition rotate_image_90 :: "photo_editor \<Rightarrow> photo_editor" where
  "rotate_image_90 e =
     (if image_isNull (canvas_image (canvas_of e)) then warning ''No image to rotate.'' e
      else set_canvas_image (rotated_90 (canvas_image (canvas_of e))) e)"

definition rotate_image_90_cc :: "photo_editor \<Rightarrow> photo_editor" where
  "rotate_image_90_cc e =
     (if image_isNull (canvas_image (canvas_of e)) then warning ''No image to rotate.'' e
      else set_canvas_image (rotated_90_cc (canvas_image (canvas_of e))) e)"

definition flip_vertical :: "photo_editor \<Rightarrow> photo_editor" where
  "flip_vertical e =
     (if image_isNull (canvas_image (canvas_of e)) then warning ''No image to flip.'' e
      else set_canvas_image (mirrored False True (canvas_image (canvas_of e))) e)"

definition flip_horizontal :: "photo_editor \<Rightarrow> photo_editor" where
  "flip_horizontal e =
     (if image_isNull (canvas_image (canvas_of e)) then warning ''No image to flip.'' e
      else set_canvas_image (mirrored True False (canvas_image (canvas_of e))) e)"

definition zoom_in :: "toolkit \<Rightarrow> photo_editor \<Rightarrow> photo_editor" where
  "zoom_in tk e =
     (let c = (canvas_of e)\<lparr>current_scale := current_scale (canvas_of e) * (12 / 10)\<rparr>
      in showMessage ''Zoomed In'' (e\<lparr>canvas_of := update_canvas_scale tk c\<rparr>))"

definition zoom_out :: "toolkit \<Rightarrow> photo_editor \<Rightarrow> photo_editor" where
  "zoom_out tk e =
     (let c = (canvas_of e)\<lparr>current_scale := current_scale (canvas_of e) * (8 / 10)\<rparr>
      in showMessage ''Zoomed Out'' (e\<lparr>canvas_of := update_canvas_scale tk c\<rparr>))"


text \<open>\<open>PhotoEditor.__init__\<close>: a fresh canvas, nothing shown yet.\<close>

definition init_editor :: "qimage \<Rightarrow> photo_editor" where
  "init_editor clip = \<lparr>canvas_of = init_canvas clip, statusBar = [], warnings = []\<rparr>"

text \<open>Running one handler on the result of another: an exception ends the run.\<close>

definition and_then :: "error + 'a \<Rightarrow> ('a \<Rightarrow> error + 'b) \<Rightarrow> error + 'b" where
  "and_then r f = (case r of Inl e \<Rightarrow> Inl e | Inr x \<Rightarrow> f x)"

section \<open>Zoom\<close>

text \<open>
  A pinch tick keeps the scale inside the zoom range, whatever the factor and the state
  of the gesture.
\<close>

lemma handle_pinch_keeps_range:
  "1 / 10 \<le> current_scale s \<and> current_scale s \<le> 5 \<Longrightarrow>
   1 / 10 \<le> current_scale (handle_pinch tk g s) \<and> current_scale (handle_pinch tk g s) \<le> 5"
  by (auto simp add: handle_pinch_def Let_def max_def min_def)

text \<open>
  The two zoom commands multiply the scale by 1.2 and by 0.8 and recompute the display
  image; they do not clamp.
\<close>

lemma zoom_multiplies:
  "current_scale (canvas_of (zoom_in tk e)) = current_scale (canvas_of e) * (12 / 10) \<and>
   current_scale (canvas_of (zoom_out tk e)) = current_scale (canvas_of e) * (8 / 10) \<and>
   canvas_image (canvas_of (zoom_in tk e)) = display tk (canvas_of (zoom_in tk e)) \<and>
   canvas_image (canvas_of (zoom_out tk e)) = display tk (canvas_of (zoom_out tk e))"
  by (simp add: zoom_in_def zoom_out_def showMessage_def update_canvas_scale_def display_def)

text \<open>
  C1: the scale after a sequence of pinch ticks and zoom commands. On a fresh editor a
  pinch tick of factor 10 brings the scale to the upper limit 5, and the zoom-in command
  then sets it to 6; a pinch tick of factor 1/100 brings it to the lower limit 1/10, and
  the zoom-out command then sets it to 8/100. The commands leave the range that the pinch
  handler enforces.
\<close>

theorem zoom_commands_leave_range:
  "current_scale
     (handle_pinch reference_toolkit \<lparr>state = GestureUpdated, scaleFactor = 10\<rparr>
        (init_canvas null_image)) = 5 \<and>
   current_scale
     (canvas_of (zoom_in reference_toolkit
        ((init_editor null_image)
           \<lparr>canvas_of := handle_pinch reference_toolkit
              \<lparr>state = GestureUpdated, scaleFactor = 10\<rparr> (init_canvas null_image)\<rparr>))) = 6 \<and>
   current_scale
     (canvas_of (zoom_out reference_toolkit
        ((init_editor null_image)
           \<lparr>canvas_of := handle_pinch reference_toolkit
              \<lparr>state = GestureUpdated, scaleFactor = 1 / 100\<rparr> (init_canvas null_image)\<rparr>))) =
     8 / 100"
  by (simp add: zoom_in_def zoom_out_def showMessage_def update_canvas_scale_def
      handle_pinch_def init_canvas_def init_editor_def new_image_def image_isNull_def Let_def)

section \<open>Whole-image transforms\<close>

text \<open>
  C2, as stated, fails: rotating the image of a fresh editor leaves the original image
  as it was, 800 pixels wide, where the rotated original would be 600 pixels wide.
\<close>

theorem rotate_keeps_original_counterexample:
  "original_image (canvas_of (rotate_image_90 (init_editor null_image))) \<noteq>
   rotated_90 (original_image (canvas_of (init_editor null_image)))"
proof
  assume "original_image (canvas_of (rotate_image_90 (init_editor null_image))) =
    rotated_90 (original_image (canvas_of (init_editor null_image)))"
  then have "width (original_image (canvas_of (rotate_image_90 (init_editor null_image)))) =
    width (rotated_90 (original_image (canvas_of (init_editor null_image))))"
    by simp
  then show False
    by (simp add: rotate_image_90_def init_editor_def init_canvas_def new_image_def
        image_isNull_def set_canvas_image_def rotated_90_def)
qed

text \<open>
  C2, amended: each transform command (crop, resize, rotate by 90 degrees either way,
  flip either way) leaves the original image unchanged; on a display image that is not
  null it replaces the display image by the transform of the display image itself: the
  centred square for crop, a white image of the answered size with the old display image
  drawn centred for resize (when both dialogs were accepted), the rotated and the
  mirrored display image.
\<close>

theorem transforms_replace_display_only:
  "original_image (canvas_of (crop_image e)) = original_image (canvas_of e) \<and>
   original_image (canvas_of (resize_image a1 a2 e)) = original_image (canvas_of e) \<and>
   original_image (canvas_of (rotate_image_90 e)) = original_image (canvas_of e) \<and>
   original_image (canvas_of (rotate_image_90_cc e)) = original_image (canvas_of e) \<and>
   original_image (canvas_of (flip_vertical e)) = original_image (canvas_of e) \<and>
   original_image (canvas_of (flip_horizontal e)) = original_image (canvas_of e) \<and>
   (\<not> image_isNull (canvas_image (canvas_of e)) \<longrightarrow>
      canvas_image (canvas_of (crop_image e)) =
        copy (canvas_image (canvas_of e))
          \<lparr>rect_x = (width (canvas_image (canvas_of e)) -
                       min (width (canvas_image (canvas_of e)))
                           (height (canvas_image (canvas_of e)))) div 2,
           rect_y = (height (canvas_image (canvas_of e)) -
                       min (width (canvas_image (canvas_of e)))
                           (height (canvas_image (canvas_of e)))) div 2,
           rect_w = min (width (canvas_image (canvas_of e))) (height (canvas_image (canvas_of e))),
           rect_h = min (width (canvas_image (canvas_of e))) (height (canvas_image (canvas_of e)))\<rparr> \<and>
      (snd a1 \<and> snd a2 \<longrightarrow>
         canvas_image (canvas_of (resize_image a1 a2 e)) =
           drawImage (new_image (fst a1) (fst a2) (\<lambda>x y. white))
             ((fst a1 - width (canvas_image (canvas_of e))) div 2,
              (fst a2 - height (canvas_image (canvas_of e))) div 2)
             (canvas_image (canvas_of e))) \<and>
      canvas_image (canvas_of (rotate_image_90 e)) = rotated_90 (canvas_image (canvas_of e)) \<and>
      canvas_image (canvas_of (rotate_image_90_cc e)) =
        rotated_90_cc (canvas_image (canvas_of e)) \<and>
      canvas_image (canvas_of (flip_vertical e)) =
        mirrored False True (canvas_image (canvas_of e)) \<and>
      canvas_image (canvas_of (flip_horizontal e)) =
        mirrored True False (canvas_image (canvas_of e)))"
  by (simp add: crop_image_def resize_image_def rotate_image_90_def rotate_image_90_cc_def
      flip_vertical_def flip_horizontal_def set_canvas_image_def showMessage_def warning_def
      Let_def)

theorem transforms_replace_display_only_witness:
  "\<not> image_isNull (canvas_image (canvas_of (init_editor null_image))) \<and>
   width (original_image (canvas_of (crop_image (init_editor null_image)))) = 800 \<and>
   width (canvas_image (canvas_of (crop_image (init_editor null_image)))) = 600 \<and>
   width (canvas_image (canvas_of (resize_image (40, True) (30, True) (init_editor null_image)))) = 40 \<and>
   width (canvas_image (canvas_of (rotate_image_90 (init_editor null_image)))) = 600 \<and>
   height (canvas_image (canvas_of (rotate_image_90_cc (init_editor null_image)))) = 800 \<and>
   width (canvas_image (canvas_of (flip_vertical (init_editor null_image)))) = 800 \<and>
   height (canvas_image (canvas_of (flip_horizontal (init_editor null_image)))) = 600"
  using transforms_replace_display_only [of "init_editor null_image" "(40, True)" "(30, True)"]
  by (simp add: init_editor_def init_canvas_def new_image_def image_isNull_def copy_def
      drawImage_def drawImage_mode_def rotated_90_def rotated_90_cc_def mirrored_def)

section \<open>Tool switch\<close>

text \<open>
  C3: from every canvas state and for every tool, \<open>set_tool\<close> leaves the engine idle
  with an empty selection path and no selected area, and doing it twice is the same as
  doing it once.
\<close>

theorem set_tool_resets:
  "is_idle (set_tool t s) \<and> selection_path (set_tool t s) = [] \<and>
   selected_area (set_tool t s) = None \<and> selection_start (set_tool t s) = None \<and>
   tool (set_tool t s) = t \<and> set_tool t (set_tool t s) = set_tool t s"
  by (simp add: set_tool_def is_idle_def)

section \<open>Extraction of a selection\<close>

text \<open>
  With the rectangle tool, a start point that counts as true and a path that is not
  empty, \<open>extract_selection\<close> takes the rectangle spanned by the start point and the last
  point of the path. When the rectangle has a positive width and height, the selected area
  becomes an image of exactly that size whose pixels are the pixels of the original at the
  same place; otherwise the selected area is left as it was.
\<close>

lemma extract_selection_rect_copy:
  assumes "tool s = Some ''rect''" and "selection_start s = Some start" and "point_bool start"
    and "selection_path s \<noteq> []" and "\<not> image_isNull (original_image s)"
    and "x1 = min (fst start) (fst (last (selection_path s)))"
    and "y1 = min (snd start) (snd (last (selection_path s)))"
    and "x2 = max (fst start) (fst (last (selection_path s)))"
    and "y2 = max (snd start) (snd (last (selection_path s)))"
  shows "(x1 < x2 \<and> y1 < y2 \<longrightarrow>
           (\<exists>area. selected_area (extract_selection s) = Some area \<and>
              width area = x2 - x1 \<and> height area = y2 - y1 \<and>
              (\<forall>i j. in_image (original_image s) (x1 + i) (y1 + j) \<longrightarrow>
                 pixel area i j = pixel (original_image s) (x1 + i) (y1 + j)))) \<and>
         (\<not> (x1 < x2 \<and> y1 < y2) \<longrightarrow>
           selected_area (extract_selection s) = selected_area s)"
  using assms
  by (auto simp add: extract_selection_def emit_def free_form_def get_selection_rect_def
      isValid_def copy_def new_image_def Let_def)

text \<open>
  C4: extraction with the rectangle tool and a two-point path. When the start point is
  the origin, the start point counts as false and the extraction is skipped: on the
  path from (0, 0) to (50, 40) no area is selected. The same state arises after pasting
  a 50 by 40 image at the default position with the rectangle tool: the extraction then
  leaves the pasted buffer as the selected area, transparent at (0, 0) where the
  original is white, and not a copy of that region of the original.
\<close>

theorem extract_selection_skips_origin_start:
  "selected_area
     (extract_selection
        ((init_canvas null_image)
           \<lparr>tool := Some ''rect'', selection_start := Some (0, 0),
            selection_path := [(0, 0), (50, 40)]\<rparr>)) = None \<and>
   selection_start
     (paste_selection reference_toolkit None
        (set_tool (Some ''rect'') (init_canvas (new_image 50 40 (\<lambda>x y. transparent))))) =
     Some (0, 0) \<and>
   selection_path
     (paste_selection reference_toolkit None
        (set_tool (Some ''rect'') (init_canvas (new_image 50 40 (\<lambda>x y. transparent))))) =
     [(0, 0), (50, 40)] \<and>
   selected_area
     (extract_selection
        (paste_selection reference_toolkit None
           (set_tool (Some ''rect'') (init_canvas (new_image 50 40 (\<lambda>x y. transparent)))))) =
     Some (new_image 50 40 (\<lambda>x y. transparent)) \<and>
   pixel
     (original_image
        (paste_selection reference_toolkit None
           (set_tool (Some ''rect'') (init_canvas (new_image 50 40 (\<lambda>x y. transparent))))))
     0 0 = white \<and>
   pixel (new_image 50 40 (\<lambda>x y. transparent)) 0 0 = transparent"
  by (simp add: extract_selection_def emit_def free_form_def get_selection_rect_def
      point_bool_def init_canvas_def paste_selection_def set_tool_def new_image_def
      image_isNull_def point_add_def drawImage_def drawImage_mode_def in_image_def
      transparent_def Let_def)






section \<open>Clipboard operations\<close>

text \<open>
  C5: copy, cut and extract on an empty selection path, and paste on an empty clipboard,
  return the state they were given with one status message appended and nothing else
  changed; none of them can fail.
\<close>

theorem empty_selection_noop:
  "(selection_path s = [] \<longrightarrow>
      copy_selection s = s\<lparr>status_message := status_message s @ [''No selection to copy.'']\<rparr> \<and>
      cut_selection tk s = s\<lparr>status_message := status_message s @ [''No selection to cut.'']\<rparr> \<and>
      extract_selection s = s\<lparr>status_message := status_message s @ [''No selection to extract.'']\<rparr>) \<and>
   (image_isNull (clipboard s) \<longrightarrow>
      paste_selection tk position s = s\<lparr>status_message := status_message s @ [''Clipboard is empty.'']\<rparr>)"
  by (simp add: copy_selection_def cut_selection_def extract_selection_def
      paste_selection_def emit_def)

theorem empty_selection_noop_witness:
  "selection_path (init_canvas null_image) = [] \<and>
   image_isNull (clipboard (init_canvas null_image)) \<and>
   original_image (copy_selection (init_canvas null_image)) = original_image (init_canvas null_image) \<and>
   selected_area (cut_selection reference_toolkit (init_canvas null_image)) = None \<and>
   status_message (extract_selection (init_canvas null_image)) = [''No selection to extract.''] \<and>
   selection_path (paste_selection reference_toolkit None (init_canvas null_image)) = []"
  using empty_selection_noop [of "init_canvas null_image" reference_toolkit None]
  by (simp add: init_canvas_def image_isNull_def null_image_def)



section \<open>Pointer events\<close>

text \<open>
  C9: a pointer move while the moving flag is set and a selected area exists changes the
  start of the selection to the mapped point minus the recorded offset, and nothing else.
\<close>

theorem moving_only_moves_anchor:
  assumes "is_moving_selection s" and "selected_area s \<noteq> None" and "current_scale s \<noteq> 0"
    and "p = (py_int (real_of_int (fst (pos event) - offset_x s) / current_scale s),
              py_int (real_of_int (snd (pos event) - offset_y s) / current_scale s))"
    and "mouseMoveEvent tk event s = r"
  shows "\<exists>s'. r = Inr s' \<and> s' = s\<lparr>selection_start := Some (point_sub p (selection_offset s))\<rparr> \<and>
           selected_area s' = selected_area s \<and> selection_path s' = selection_path s \<and>
           original_image s' = original_image s \<and> canvas_image s' = canvas_image s \<and>
           is_moving s'"
  using assms by (auto simp add: mouseMoveEvent_def map_to_scaled_image_def is_moving_def)

theorem moving_only_moves_anchor_witness:
  "is_moving_selection ((init_canvas null_image)
      \<lparr>selection_start := Some (20, 20), selection_path := [(20, 20), (25, 25)],
       selected_area := Some (new_image 5 5 (\<lambda>x y. black)),
       is_moving_selection := True, selection_offset := (2, 2)\<rparr>) \<and>
   selected_area ((init_canvas null_image)
      \<lparr>selection_start := Some (20, 20), selection_path := [(20, 20), (25, 25)],
       selected_area := Some (new_image 5 5 (\<lambda>x y. black)),
       is_moving_selection := True, selection_offset := (2, 2)\<rparr>) \<noteq> None \<and>
   mouseMoveEvent reference_toolkit \<lparr>pos = (30, 40), button = LeftButton\<rparr>
     ((init_canvas null_image)
      \<lparr>selection_start := Some (20, 20), selection_path := [(20, 20), (25, 25)],
       selected_area := Some (new_image 5 5 (\<lambda>x y. black)),
       is_moving_selection := True, selection_offset := (2, 2)\<rparr>) =
   Inr ((init_canvas null_image)
      \<lparr>selection_start := Some (28, 38), selection_path := [(20, 20), (25, 25)],
       selected_area := Some (new_image 5 5 (\<lambda>x y. black)),
       is_moving_selection := True, selection_offset := (2, 2)\<rparr>)"
  using moving_only_moves_anchor
    [of "(init_canvas null_image)
      \<lparr>selection_start := Some (20, 20), selection_path := [(20, 20), (25, 25)],
       selected_area := Some (new_image 5 5 (\<lambda>x y. black)),
       is_moving_selection := True, selection_offset := (2, 2)\<rparr>"
      "(30, 40)" "\<lparr>pos = (30, 40), button = LeftButton\<rparr>" reference_toolkit, OF _ _ _ _ refl]
  by (simp add: init_canvas_def py_int_def point_sub_def)

text \<open>
  The first step of a pointer press never fails: a press inside the rectangle of an
  existing area finds a start point, since without one the rectangle is null.
\<close>

lemma contains_null_rect: "\<not> contains null_rect p"
  by (simp add: contains_def null_rect_def)

lemma press_selection_moves:
  assumes "selected_area s \<noteq> None" and "contains (get_selection_rect s) p"
  shows "\<exists>start. selection_start s = Some start \<and>
           press_selection p s =
             Inr (s\<lparr>is_moving_selection := True, selection_offset := point_sub p start\<rparr>)"
proof (cases "selection_start s")
  case None
  then have "get_selection_rect s = null_rect"
    by (simp add: get_selection_rect_def)
  with assms(2) show ?thesis
    by (simp add: contains_null_rect)
next
  case (Some start)
  with assms show ?thesis
    by (simp add: press_selection_def)
qed

lemma press_selection_clears:
  assumes "\<not> (selected_area s \<noteq> None \<and> contains (get_selection_rect s) p)"
  shows "press_selection p s =
           Inr (s\<lparr>is_moving_selection := False, selection_start := None,
                  selection_path := [], selected_area := None\<rparr>)"
  using assms by (auto simp add: press_selection_def)

lemma press_selection_total: "\<exists>s1. press_selection p s = Inr s1"
proof (cases "selected_area s \<noteq> None \<and> contains (get_selection_rect s) p")
  case True
  then show ?thesis using press_selection_moves [of s p] by auto
next
  case False
  then show ?thesis using press_selection_clears [of s p] by auto
qed

text \<open>
  C8: a pointer press inside the rectangle of an existing selected area. On a fresh canvas
  with the rectangle tool, a drag from (10, 10) to (50, 40) selects that rectangle; a press
  at (20, 20), inside it, sets the moving flag and records the offset (10, 10), and the
  dispatch on the tool that follows then restarts the selection: the start becomes
  (20, 20) and the path the single point (20, 20).
\<close>

theorem press_inside_selection_restarts_path:
  "\<exists>s3 s4.
     and_then
       (and_then
          (mousePressEvent \<lparr>pos = (10, 10), button = LeftButton\<rparr>
             (set_tool (Some ''rect'') (init_canvas null_image)))
          (mouseMoveEvent reference_toolkit \<lparr>pos = (50, 40), button = LeftButton\<rparr>))
       mouseReleaseEvent = Inr s3 \<and>
     selection_start s3 = Some (10, 10) \<and> selection_path s3 = [(10, 10), (50, 40)] \<and>
     selected_area s3 \<noteq> None \<and> contains (get_selection_rect s3) (20, 20) \<and>
     mousePressEvent \<lparr>pos = (20, 20), button = LeftButton\<rparr> s3 = Inr s4 \<and>
     is_moving_selection s4 \<and> selection_offset s4 = (10, 10) \<and>
     selected_area s4 = selected_area s3 \<and>
     selection_start s4 = Some (20, 20) \<and> selection_path s4 = [(20, 20)]"
  by (simp add: and_then_def mousePressEvent_def mouseMoveEvent_def mouseReleaseEvent_def
      finalize_selection_def extract_selection_def emit_def press_selection_def press_tool_def
      map_to_scaled_image_def get_selection_rect_def set_tool_def init_canvas_def
      free_form_def point_bool_def point_sub_def py_int_def isValid_def contains_def
      Let_def)

theorem press_inside_selection_restarts_path_witness:
  "\<exists>s3 s4.
     and_then
       (and_then
          (mousePressEvent \<lparr>pos = (10, 10), button = LeftButton\<rparr>
             (set_tool (Some ''rect'') (init_canvas null_image)))
          (mouseMoveEvent reference_toolkit \<lparr>pos = (50, 40), button = LeftButton\<rparr>))
       mouseReleaseEvent = Inr s3 \<and>
     selected_area s3 \<noteq> None \<and> contains (get_selection_rect s3) (20, 20) \<and>
     mousePressEvent \<lparr>pos = (20, 20), button = LeftButton\<rparr> s3 = Inr s4 \<and>
     is_moving_selection s4 \<and> selection_path s4 \<noteq> selection_path s3"
proof -
  obtain s3 s4 where
    "and_then
       (and_then
          (mousePressEvent \<lparr>pos = (10, 10), button = LeftButton\<rparr>
             (set_tool (Some ''rect'') (init_canvas null_image)))
          (mouseMoveEvent reference_toolkit \<lparr>pos = (50, 40), button = LeftButton\<rparr>))
       mouseReleaseEvent = Inr s3"
    and "selection_path s3 = [(10, 10), (50, 40)]"
    and "selected_area s3 \<noteq> None" and "contains (get_selection_rect s3) (20, 20)"
    and "mousePressEvent \<lparr>pos = (20, 20), button = LeftButton\<rparr> s3 = Inr s4"
    and "is_moving_selection s4" and "selection_path s4 = [(20, 20)]"
    using press_inside_selection_restarts_path by blast
  then show ?thesis
    by auto
qed

text \<open>
  C10: a pointer press whose mapped point has the coordinate -1 on either axis changes
  nothing; every other mapped point, inside the image or not, goes through the selection
  step and the dispatch on the tool (start and path for the rectangle tool, the lasso
  flag for the lasso and polygon tools, the drawing flag and the last point for pencil
  and eraser). The mapped point is the truncated quotient of the widget point minus the
  offsets by the scale, without clamping: at scale 1 it is the widget point minus the
  offsets.
\<close>

theorem press_guard_minus_one:
  assumes "map_to_scaled_image s (pos event) = Inr p"
  shows "(fst p = - 1 \<or> snd p = - 1 \<longrightarrow> mousePressEvent event s = Inr s) \<and>
         (fst p \<noteq> - 1 \<and> snd p \<noteq> - 1 \<longrightarrow>
            (\<exists>s1 s'. press_selection p s = Inr s1 \<and> mousePressEvent event s = Inr s' \<and>
               s' = press_tool event p s1 \<and>
               (tool s = Some ''rect'' \<longrightarrow>
                  selection_start s' = Some p \<and> selection_path s' = [p]) \<and>
               (free_form (tool s) \<longrightarrow> drawing_selection s') \<and>
               (tool s = None \<and> button event = LeftButton \<or> tool s = Some ''erase'' \<longrightarrow>
                  drawing s' \<and> last_point s' = p))) \<and>
         (current_scale s \<noteq> 0 \<and>
          p = (py_int (real_of_int (fst (pos event) - offset_x s) / current_scale s),
               py_int (real_of_int (snd (pos event) - offset_y s) / current_scale s))) \<and>
         (current_scale s = 1 \<longrightarrow> p = (fst (pos event) - offset_x s, snd (pos event) - offset_y s))"
proof -
  obtain s1 where s1: "press_selection p s = Inr s1"
    using press_selection_total by blast
  have t: "tool s1 = tool s"
    using s1 by (auto simp add: press_selection_def split: if_splits option.splits)
  have a: "fst p = - 1 \<or> snd p = - 1 \<longrightarrow> mousePressEvent event s = Inr s"
    using assms by (auto simp add: mousePressEvent_def)
  have b: "fst p \<noteq> - 1 \<and> snd p \<noteq> - 1 \<longrightarrow> mousePressEvent event s = Inr (press_tool event p s1)"
    using assms s1 by (simp add: mousePressEvent_def)
  have c: "tool s = Some ''rect'' \<longrightarrow>
      selection_start (press_tool event p s1) = Some p \<and>
      selection_path (press_tool event p s1) = [p]"
    using t by (simp add: press_tool_def)
  have d: "free_form (tool s) \<longrightarrow> drawing_selection (press_tool event p s1)"
    using t by (auto simp add: press_tool_def free_form_def)
  have e: "tool s = None \<and> button event = LeftButton \<or> tool s = Some ''erase'' \<longrightarrow>
      drawing (press_tool event p s1) \<and> last_point (press_tool event p s1) = p"
    using t by (auto simp add: press_tool_def free_form_def)
  have f: "current_scale s \<noteq> 0 \<and>
          p = (py_int (real_of_int (fst (pos event) - offset_x s) / current_scale s),
               py_int (real_of_int (snd (pos event) - offset_y s) / current_scale s))"
    using assms by (auto simp add: map_to_scaled_image_def split: if_splits)
  have g: "current_scale s = 1 \<longrightarrow> p = (fst (pos event) - offset_x s, snd (pos event) - offset_y s)"
    using f by (auto simp add: py_int_def)
  show ?thesis
    using a b c d e f g s1 by blast
qed

theorem press_guard_minus_one_witness:
  "map_to_scaled_image (set_tool (Some ''rect'') (init_canvas null_image)) (- 1, 7) = Inr (- 1, 7) \<and>
   mousePressEvent \<lparr>pos = (- 1, 7), button = LeftButton\<rparr>
     (set_tool (Some ''rect'') (init_canvas null_image)) =
     Inr (set_tool (Some ''rect'') (init_canvas null_image)) \<and>
   map_to_scaled_image (set_tool (Some ''rect'') (init_canvas null_image)) (- 2, 900) =
     Inr (- 2, 900) \<and>
   (\<exists>s'. mousePressEvent \<lparr>pos = (- 2, 900), button = LeftButton\<rparr>
            (set_tool (Some ''rect'') (init_canvas null_image)) = Inr s' \<and>
         selection_start s' = Some (- 2, 900) \<and> selection_path s' = [(- 2, 900)])"
proof -
  let ?s = "set_tool (Some ''rect'') (init_canvas null_image)"
  have m1: "map_to_scaled_image ?s (pos \<lparr>pos = (- 1, 7), button = LeftButton\<rparr>) = Inr (- 1, 7)"
    by (simp add: map_to_scaled_image_def set_tool_def init_canvas_def py_int_def)
  have m2: "map_to_scaled_image ?s (pos \<lparr>pos = (- 2, 900), button = LeftButton\<rparr>) =
      Inr (- 2, 900)"
    by (simp add: map_to_scaled_image_def set_tool_def init_canvas_def py_int_def)
  have t: "tool ?s = Some ''rect''"
    by (simp add: set_tool_def)
  have a: "mousePressEvent \<lparr>pos = (- 1, 7), button = LeftButton\<rparr> ?s = Inr ?s"
    using press_guard_minus_one [OF m1, THEN conjunct1] by simp
  have b: "\<exists>s'. mousePressEvent \<lparr>pos = (- 2, 900), button = LeftButton\<rparr> ?s = Inr s' \<and>
         selection_start s' = Some (- 2, 900) \<and> selection_path s' = [(- 2, 900)]"
    using press_guard_minus_one [OF m2, THEN conjunct2, THEN conjunct1] t by auto
  show ?thesis
    using m1 m2 a b by simp
qed

end
